theory Spec2Isabelle
  imports Complex_Main "HOL-Library.Sublist" "HOL-Library.AList"
begin

section \<open>JavaScript numbers\<close>

text \<open>
  A JavaScript number is an IEEE 754 binary64 value. \<open>Finite m e\<close> stands for the number
  \<open>m \<times> 2\<^sup>e\<close>; the doubles are the values \<open>Finite 0 0\<close>, \<open>Finite m e\<close> with
  \<open>2\<^sup>5\<^sup>2 \<le> \<bar>m\<bar> < 2\<^sup>5\<^sup>3\<close> and \<open>- 1074 \<le> e \<le> 971\<close> (normal), and \<open>Finite m (- 1074)\<close> with
  \<open>0 < \<bar>m\<bar> < 2\<^sup>5\<^sup>2\<close> (subnormal), besides the two infinities and \<open>NaN\<close>. The two zeros
  are one value here: the program only adds, multiplies and compares, none of which
  tells them apart, and a sum or product differs for them at most in the sign of a zero.
\<close>

datatype jsNumber = Finite int int | PosInfinity | NegInfinity | NaN

fun bitLength :: "int \<Rightarrow> nat" where
  "bitLength n = (if n \<le> 0 then 0 else Suc (bitLength (n div 2)))"

declare bitLength.simps [simp del]

text \<open>\<open>a / 2\<^sup>s\<close> rounded to the nearest integer, a tie to the even one (\<open>s > 0\<close>).\<close>

definition roundHalfEven :: "int \<Rightarrow> nat \<Rightarrow> int" where
  "roundHalfEven a s =
     (let q = a div 2 ^ s; r = a mod 2 ^ s; h = 2 ^ (s - 1)
      in if r > h \<or> (r = h \<and> odd q) then q + 1 else q)"

text \<open>
  The double nearest to \<open>m \<times> 2\<^sup>e\<close>, a tie to the even significand: the significand keeps
  53 bits, or fewer where the exponent would fall below \<open>- 1074\<close>; a result of
  \<open>2\<^sup>1\<^sup>0\<^sup>2\<^sup>4\<close> or more is an infinity.
\<close>

definition roundToDouble :: "int \<Rightarrow> int \<Rightarrow> jsNumber" where
  "roundToDouble m e =
     (if m = 0 then Finite 0 0
      else
        let a = \<bar>m\<bar>;
            n = int (bitLength a);
            e1 = max (e + n - 53) (- 1074);
            q = (if e1 \<le> e then a * 2 ^ nat (e - e1) else roundHalfEven a (nat (e1 - e)));
            q2 = (if q = 2 ^ 53 then 2 ^ 52 else q);
            e2 = (if q = 2 ^ 53 then e1 + 1 else e1)
        in if q2 = 0 then Finite 0 0
           else if e2 > 971 then (if m < 0 then NegInfinity else PosInfinity)
           else Finite (sgn m * q2) e2)"

text \<open>The number an integer literal or an integer in JSON denotes.\<close>

definition ofInt :: "int \<Rightarrow> jsNumber" where
  "ofInt n = roundToDouble n 0"



text \<open>The operators \<^verbatim>\<open>+\<close>, \<^verbatim>\<open>*\<close>, \<^verbatim>\<open>>=\<close> and \<^verbatim>\<open>===\<close> on numbers.\<close>

fun jsAdd :: "jsNumber \<Rightarrow> jsNumber \<Rightarrow> jsNumber" where
  "jsAdd NaN y = NaN"
| "jsAdd x NaN = NaN"
| "jsAdd PosInfinity NegInfinity = NaN"
| "jsAdd NegInfinity PosInfinity = NaN"
| "jsAdd PosInfinity y = PosInfinity"
| "jsAdd NegInfinity y = NegInfinity"
| "jsAdd x PosInfinity = PosInfinity"
| "jsAdd x NegInfinity = NegInfinity"
| "jsAdd (Finite m1 e1) (Finite m2 e2) =
     (let e = min e1 e2
      in roundToDouble (m1 * 2 ^ nat (e1 - e) + m2 * 2 ^ nat (e2 - e)) e)"

fun jsMul :: "jsNumber \<Rightarrow> jsNumber \<Rightarrow> jsNumber" where
  "jsMul NaN y = NaN"
| "jsMul x NaN = NaN"
| "jsMul (Finite m1 e1) (Finite m2 e2) = roundToDouble (m1 * m2) (e1 + e2)"
| "jsMul (Finite m e) PosInfinity =
     (if m = 0 then NaN else if m < 0 then NegInfinity else PosInfinity)"
| "jsMul (Finite m e) NegInfinity =
     (if m = 0 then NaN else if m < 0 then PosInfinity else NegInfinity)"
| "jsMul PosInfinity (Finite m e) =
     (if m = 0 then NaN else if m < 0 then NegInfinity else PosInfinity)"
| "jsMul NegInfinity (Finite m e) =
     (if m = 0 then NaN else if m < 0 then PosInfinity else NegInfinity)"
| "jsMul PosInfinity PosInfinity = PosInfinity"
| "jsMul PosInfinity NegInfinity = NegInfinity"
| "jsMul NegInfinity PosInfinity = NegInfinity"
| "jsMul NegInfinity NegInfinity = PosInfinity"

fun jsGe :: "jsNumber \<Rightarrow> jsNumber \<Rightarrow> bool" where
  "jsGe NaN y = False"
| "jsGe x NaN = False"
| "jsGe PosInfinity y = True"
| "jsGe x NegInfinity = True"
| "jsGe NegInfinity y = False"
| "jsGe x PosInfinity = False"
| "jsGe (Finite m1 e1) (Finite m2 e2) =
     (let e = min e1 e2 in m1 * 2 ^ nat (e1 - e) \<ge> m2 * 2 ^ nat (e2 - e))"

fun jsStrictEquals :: "jsNumber \<Rightarrow> jsNumber \<Rightarrow> bool" where
  "jsStrictEquals NaN y = False"
| "jsStrictEquals x NaN = False"
| "jsStrictEquals (Finite m1 e1) (Finite m2 e2) =
     (let e = min e1 e2 in m1 * 2 ^ nat (e1 - e) = m2 * 2 ^ nat (e2 - e))"
| "jsStrictEquals x y = (x = y)"

text \<open>
  The string of a number that holds an integer, as a template literal prints it
  (\<^verbatim>\<open>Number::toString\<close>). Up to \<open>2\<^sup>5\<^sup>3\<close> every integer is a double and prints with all its
  digits. Above, the integer is first the double nearest to it, and the digits are the
  fewest that still denote that double (the closest such if there are two), followed by
  zeros; from 22 digits on the exponent form is used, as in \<^verbatim>\<open>1e+21\<close>.
  \<open>decimalString\<close> writes a non-negative integer with all its digits.
\<close>

function decimalString :: "int \<Rightarrow> string" where
  "decimalString n =
     (if n < 10 then [''0123456789'' ! nat n]
      else decimalString (n div 10) @ [''0123456789'' ! nat (n mod 10)])"
  by pat_completeness auto
termination
  by (relation "measure nat") auto

declare decimalString.simps [simp del]

definition shortestCandidate :: "int \<Rightarrow> nat \<Rightarrow> nat \<Rightarrow> int option" where
  "shortestCandidate v n k =
     (let u = 10 ^ (n - k);
          lo = (v div u) * u;
          hi = lo + u;
          okLo = (ofInt lo = ofInt v);
          okHi = (ofInt hi = ofInt v)
      in if okLo \<and> okHi
         then Some (if v - lo < hi - v \<or> (v - lo = hi - v \<and> even (v div u)) then lo else hi)
         else if okLo then Some lo
         else if okHi then Some hi
         else None)"

definition shortestDecimal :: "int \<Rightarrow> int" where
  "shortestDecimal v =
     (let n = length (decimalString v)
      in case List.map_filter (shortestCandidate v n) [1..<Suc (min n 17)] of
           c # cs \<Rightarrow> c
         | [] \<Rightarrow> v)"

definition stripTrailingZeros :: "string \<Rightarrow> string" where
  "stripTrailingZeros str = rev (dropWhile (\<lambda>c. c = CHR ''0'') (rev str))"

definition largeToString :: "int \<Rightarrow> string" where
  "largeToString v =
     (let digits = decimalString (shortestDecimal v);
          n = length digits;
          sig = stripTrailingZeros digits
      in if n \<le> 21 then digits
         else (if length sig = 1 then sig else hd sig # ''.'' @ tl sig)
              @ ''e+'' @ decimalString (int n - 1))"

definition integerToString :: "int \<Rightarrow> string" where
  "integerToString n =
     (if \<bar>n\<bar> \<le> 2 ^ 53 then (if n < 0 then ''-'' else []) @ decimalString \<bar>n\<bar>
      else case ofInt n of
             Finite m e \<Rightarrow> (if n < 0 then ''-'' else []) @ largeToString (\<bar>m\<bar> * 2 ^ nat e)
           | PosInfinity \<Rightarrow> ''Infinity''
           | NegInfinity \<Rightarrow> ''-Infinity''
           | NaN \<Rightarrow> ''NaN'')"

section \<open>Data model\<close>

text \<open>
  Modelled from the spec: the module \<^verbatim>\<open>types.ts\<close> (\<^verbatim>\<open>Product\<close>, \<^verbatim>\<open>CartItem\<close>, the variant
  option type and \<^verbatim>\<open>View\<close>) is imported by both components but is not among the
  sources. The records below carry the fields the two components read, with the types
  the spec's data model gives them: a product identifier that is a string, a price that
  is a number, the flag \<^verbatim>\<open>isShippingSaver\<close> (absent counts as false, as in the truthiness
  test of the source), the optional \<^verbatim>\<open>variants\<close> mapping, and for a cart item its own
  identity, its product and an integer quantity. Display-only fields (name, brand, image,
  description, regular price) are never read by the modelled code and are left out.

  A JavaScript string is a \<^typ>\<open>string\<close>, one character per code unit. An object used as
  a dictionary (\<^verbatim>\<open>Record<string, T>\<close>) is an association list holding its own properties
  in the order \<^verbatim>\<open>Object.keys\<close> enumerates them; an optional value that may be absent or
  \<^verbatim>\<open>null\<close> is an \<^typ>\<open>'a option\<close>.
\<close>

record variantOption =
  value' :: string
  colorCode :: "string option"

type_synonym variants = "(string \<times> variantOption list) list"

record product =
  id' :: string
  price :: jsNumber
  isShippingSaver :: bool
  variants :: "variants option"

record cartItem =
  cartItemId :: string
  product :: product
  quantity :: int

section \<open>Checkout: pricing derivation\<close>

text \<open>\<^verbatim>\<open>CheckoutSummaryPage.tsx\<close>, lines 16--17 and 41--50.\<close>

definition FREE_SHIPPING_THRESHOLD :: jsNumber where
  "FREE_SHIPPING_THRESHOLD = ofInt 35"

definition SHIPPING_COST :: jsNumber where
  "SHIPPING_COST = ofInt 6"

text \<open>
  \<^verbatim>\<open>cartItems.reduce((total, item) => total + item.product.price * item.quantity, 0)\<close>:
  a left fold from 0 with the program's multiplication and addition, each of which
  rounds. The quantity is the number holding the item's integer quantity.
\<close>

definition subtotal :: "cartItem list \<Rightarrow> jsNumber" where
  "subtotal cartItems =
     foldl (\<lambda>total item. jsAdd total (jsMul (price (product item)) (ofInt (quantity item))))
       (ofInt 0) cartItems"

definition shippingCost :: "cartItem list \<Rightarrow> jsNumber" where
  "shippingCost cartItems =
     (let hasShippingSaver = list_ex (\<lambda>item. isShippingSaver (product item)) cartItems
      in if hasShippingSaver \<or> jsGe (subtotal cartItems) FREE_SHIPPING_THRESHOLD
         then ofInt 0 else SHIPPING_COST)"

definition total' :: "cartItem list \<Rightarrow> jsNumber" where
  "total' cartItems = jsAdd (subtotal cartItems) (shippingCost cartItems)"


section \<open>Checkout: form state\<close>

text \<open>
  The component's state (\<^verbatim>\<open>useState\<close>, lines 25--38): the processing flag, the email and
  the shipping form. Every field starts empty and the flag starts false.
\<close>

record shippingForm =
  firstName :: string
  lastName :: string
  address :: string
  city :: string
  zip' :: string
  phone :: string

record checkoutState =
  isProcessing :: bool
  email :: string
  shipping :: shippingForm

definition initialState :: checkoutState where
  "initialState =
     \<lparr>isProcessing = False, email = [],
      shipping = \<lparr>firstName = [], lastName = [], address = [], city = [],
                  zip' = [], phone = []\<rparr>\<rparr>"


section \<open>JavaScript library functions used by the order construction\<close>

text \<open>
  \<^verbatim>\<open>String.prototype.replace\<close> with a string pattern: the first occurrence of the pattern,
  wherever it stands in the subject, is replaced; a subject without the pattern is
  returned as it is. (The replacement strings of the source are empty, so the special
  \<^verbatim>\<open>$\<close> patterns of a replacement play no role.)
\<close>

fun String_replace :: "string \<Rightarrow> string \<Rightarrow> string \<Rightarrow> string" where
  "String_replace pat rep [] = (if pat = [] then rep else [])"
| "String_replace pat rep (c # cs) =
     (if prefix pat (c # cs) then rep @ drop (length pat) (c # cs)
      else c # String_replace pat rep cs)"

text \<open>
  \<^verbatim>\<open>parseInt(string)\<close> with no radix, after ECMAScript: leading white space is skipped,
  one sign is read, a following \<^verbatim>\<open>0x\<close> or \<^verbatim>\<open>0X\<close> selects radix 16 (radix 10 otherwise),
  and the longest run of digits of that radix is the integer; what follows the digits is
  ignored. With no digit the result is \<^verbatim>\<open>NaN\<close>; otherwise it is the number nearest to the
  signed integer, which is the integer itself up to \<open>2\<^sup>5\<^sup>3\<close>.
\<close>

definition isWhiteSpace :: "char \<Rightarrow> bool" where
  "isWhiteSpace c =
     (c \<in> set [CHR 0x09, CHR 0x0A, CHR 0x0B, CHR 0x0C, CHR 0x0D, CHR 0x20, CHR 0xA0])"

definition digitValue :: "char \<Rightarrow> nat option" where
  "digitValue c =
     (let n = (of_char c :: nat)
      in if 48 \<le> n \<and> n \<le> 57 then Some (n - 48)
         else if 97 \<le> n \<and> n \<le> 122 then Some (n - 87)
         else if 65 \<le> n \<and> n \<le> 90 then Some (n - 55)
         else None)"

definition isRadixDigit :: "nat \<Rightarrow> char \<Rightarrow> bool" where
  "isRadixDigit R c = (case digitValue c of None \<Rightarrow> False | Some d \<Rightarrow> d < R)"

definition radixValue :: "nat \<Rightarrow> string \<Rightarrow> int" where
  "radixValue R Z =
     foldl (\<lambda>acc c. acc * int R + (case digitValue c of None \<Rightarrow> 0 | Some d \<Rightarrow> int d)) 0 Z"

definition parseInt :: "string \<Rightarrow> jsNumber" where
  "parseInt inputString =
     (let S = dropWhile isWhiteSpace inputString;
          sign = (if prefix ''-'' S then - 1 else (1 :: int));
          S1 = (if prefix ''+'' S \<or> prefix ''-'' S then drop 1 S else S);
          hex = (prefix ''0x'' S1 \<or> prefix ''0X'' S1);
          R = (if hex then 16 else 10);
          S2 = (if hex then drop 2 S1 else S1);
          Z = takeWhile (isRadixDigit R) S2
      in if Z = [] then NaN else ofInt (sign * radixValue R Z))"

section \<open>Checkout: the order request\<close>

text \<open>
  The object literal \<^verbatim>\<open>orderData\<close> (lines 69--96). The billing block has the fields of
  the shipping block followed by \<^verbatim>\<open>email\<close> and \<^verbatim>\<open>phone\<close>, so it is the record extension.
  A \<^verbatim>\<open>product_id\<close> is the number \<^verbatim>\<open>parseInt\<close> returns, \<^verbatim>\<open>NaN\<close> included.
\<close>

record shippingBlock =
  first_name :: string
  last_name :: string
  address_1 :: string
  city :: string
  postcode :: string
  country :: string

record billingBlock = shippingBlock +
  email :: string
  phone :: string

record lineItem =
  product_id :: jsNumber
  quantity :: int

record orderRequest =
  payment_method :: string
  payment_method_title :: string
  set_paid :: bool
  billing :: billingBlock
  shipping :: shippingBlock
  line_items :: "lineItem list"
  customer_note :: string

text \<open>
  \<^verbatim>\<open>parseInt(item.product.id.toString().replace('wc-', '').replace('sim-', ''))\<close>; the
  identifier is a string already, so \<^verbatim>\<open>toString\<close> returns it.
\<close>

definition backendProductId :: "string \<Rightarrow> jsNumber" where
  "backendProductId pid = parseInt (String_replace ''sim-'' [] (String_replace ''wc-'' [] pid))"

text \<open>
  \<^verbatim>\<open>shipping.lastName || '.'\<close>: the empty string is the only falsy string. The two accented
  letters of the payment method title are the code unit \<open>0xE9\<close>.
\<close>

definition orderData :: "cartItem list \<Rightarrow> checkoutState \<Rightarrow> orderRequest" where
  "orderData cartItems s =
     (let sh = checkoutState.shipping s in
      \<lparr>payment_method = ''stripe'',
       payment_method_title = ''Tarjeta de Cr'' @ [CHR 0xE9] @ ''dito / D'' @ [CHR 0xE9] @ ''bito'',
       set_paid = False,
       billing =
         \<lparr>first_name = firstName sh,
          last_name = (if lastName sh = [] then ''.'' else lastName sh),
          address_1 = address sh,
          city = shippingForm.city sh,
          postcode = zip' sh,
          country = ''ES'',
          email = checkoutState.email s,
          phone = shippingForm.phone sh\<rparr>,
       shipping =
         \<lparr>first_name = firstName sh,
          last_name = (if lastName sh = [] then ''.'' else lastName sh),
          address_1 = address sh,
          city = shippingForm.city sh,
          postcode = zip' sh,
          country = ''ES''\<rparr>,
       line_items =
         map (\<lambda>item. \<lparr>product_id = backendProductId (id' (cartItem.product item)),
                         quantity = cartItem.quantity item\<rparr>) cartItems,
       customer_note = ''Pedido realizado desde Vellaperfumeria App (Pink Edition)''\<rparr>)"





section \<open>Checkout: submission\<close>

text \<open>
  Modelled from the spec: the module \<^verbatim>\<open>api.ts\<close> with \<^verbatim>\<open>createOrder\<close> is not among the
  sources. The call is an opaque RPC: it either rejects or resolves with a response,
  which may be absent (\<^verbatim>\<open>null\<close>) and otherwise is an object whose \<^verbatim>\<open>id\<close> and \<^verbatim>\<open>order_key\<close>
  are JavaScript values: undefined when the field is missing, \<^verbatim>\<open>null\<close>, a number that
  holds an integer (\<open>JSNumber n\<close> is what the integer \<open>n\<close> in the JSON of the response
  becomes, an order id) or a string. The handler takes the RPC as a parameter.
\<close>

datatype jsValue = JSUndefined | JSNull | JSNumber int | JSString string

record orderResponse =
  id' :: jsValue
  order_key :: jsValue

datatype 'a promise = Resolved 'a | Rejected

text \<open>
  Truthiness, as the condition \<^verbatim>\<open>result && result.id\<close> tests it. The number of a non-zero
  integer is not zero.
\<close>

fun truthy :: "jsValue \<Rightarrow> bool" where
  "truthy JSUndefined = False"
| "truthy JSNull = False"
| "truthy (JSNumber n) = (n \<noteq> 0)"
| "truthy (JSString str) = (str \<noteq> [])"

text \<open>The string a value becomes inside a template literal.\<close>

fun templateString :: "jsValue \<Rightarrow> string" where
  "templateString JSUndefined = ''undefined''"
| "templateString JSNull = ''null''"
| "templateString (JSNumber n) = integerToString n"
| "templateString (JSString str) = str"

definition paymentUrl :: "orderResponse \<Rightarrow> string" where
  "paymentUrl result =
     (let orderId = orderResponse.id' result; orderKey = order_key result
      in ''https://vellaperfumeria.com/finalizar-compra/order-pay/'' @ templateString orderId
         @ ''/?pay_for_order=true&key='' @ templateString orderKey)"

text \<open>
  What the handler does to the outside, in order: \<^verbatim>\<open>e.preventDefault()\<close>, an \<^verbatim>\<open>alert\<close>,
  the call of \<^verbatim>\<open>createOrder\<close> with its argument, the console, and the assignment to
  \<^verbatim>\<open>window.location.href\<close>. The accented letters of the three messages are the code
  units \<open>0xED\<close>, \<open>0xF3\<close> and \<open>0xE9\<close>, as is the one of the console message.
\<close>

datatype effect =
  PreventDefault
| Alert string
| CreateOrder orderRequest
| ConsoleLog string jsValue
| ConsoleError string
| Navigate string

definition msgIncomplete :: string where
  "msgIncomplete = ''Por favor, completa los datos de contacto y env'' @ [CHR 0xED] @ ''o.''"

definition msgGateway :: string where
  "msgGateway = ''Error de conexi'' @ [CHR 0xF3] @ ''n con la pasarela de pago. ''
     @ ''Se ha intentado registrar el pedido localmente.''"

definition msgBank :: string where
  "msgBank = ''Hubo un error al conectar con el banco. Por favor, int'' @ [CHR 0xE9]
     @ ''ntalo de nuevo.''"

text \<open>
  \<^verbatim>\<open>handleFinalizeOrder\<close> (lines 58--127). The state is passed in and returned with the
  list of effects; the awaited call is the application of the parameter \<open>createOrder\<close>.
  The handler writes only \<^verbatim>\<open>isProcessing\<close>. What the browser does with the \<^verbatim>\<open>required\<close>
  attribute of the inputs happens before the handler is called and is no part of it.
\<close>

definition handleFinalizeOrder ::
  "(orderRequest \<Rightarrow> orderResponse option promise) \<Rightarrow> cartItem list \<Rightarrow> checkoutState
     \<Rightarrow> checkoutState \<times> effect list" where
  "handleFinalizeOrder createOrder cartItems s =
     (if checkoutState.email s = [] \<or> firstName (checkoutState.shipping s) = []
         \<or> address (checkoutState.shipping s) = [] \<or> shippingForm.phone (checkoutState.shipping s) = []
      then (s, [PreventDefault, Alert msgIncomplete])
      else
        let s1 = s\<lparr>isProcessing := True\<rparr>;
            request = orderData cartItems s
        in case createOrder request of
             Resolved result \<Rightarrow>
               (case result of
                  Some r \<Rightarrow>
                    if truthy (orderResponse.id' r)
                    then (s1, [PreventDefault, CreateOrder request,
                               ConsoleLog (''Pedido creado con '' @ [CHR 0xE9] @ ''xito:'') (orderResponse.id' r),
                               Navigate (paymentUrl r)])
                    else (s1\<lparr>isProcessing := False\<rparr>,
                          [PreventDefault, CreateOrder request, Alert msgGateway])
                | None \<Rightarrow>
                    (s1\<lparr>isProcessing := False\<rparr>,
                     [PreventDefault, CreateOrder request, Alert msgGateway]))
           | Rejected \<Rightarrow>
               (s1\<lparr>isProcessing := False\<rparr>,
                [PreventDefault, CreateOrder request, ConsoleError ''Error processing order'',
                 Alert msgBank]))"

text \<open>Observations on an effect list: the RPC calls, the navigations and the alerts.\<close>

fun isCreateOrder :: "effect \<Rightarrow> bool" where
  "isCreateOrder (CreateOrder request) = True"
| "isCreateOrder e = False"

fun isNavigate :: "effect \<Rightarrow> bool" where
  "isNavigate (Navigate url) = True"
| "isNavigate e = False"

fun isAlert :: "effect \<Rightarrow> bool" where
  "isAlert (Alert msg) = True"
| "isAlert e = False"

section \<open>Checkout: rendering\<close>

text \<open>
  The component's return value (lines 130--258), as the data it shows: the empty-cart
  view is a heading and one button whose click calls \<^verbatim>\<open>onNavigate('products')\<close>; the form
  view shows the total, the number of cart lines, the shipping cost (\<^term>\<open>None\<close> when the
  label is \<^verbatim>\<open>Gratis\<close>, that is when \<^verbatim>\<open>shippingCost === 0\<close>), the field values, and the
  submit button, disabled while processing. The amounts are those handed to the external
  \<^verbatim>\<open>formatCurrency\<close>.
\<close>

record formView =
  totalShown :: jsNumber
  itemCount :: nat
  shippingShown :: "jsNumber option"
  emailValue :: string
  shippingValues :: shippingForm
  submitDisabled :: bool

datatype view = EmptyCartView string | CheckoutFormView formView

definition render :: "cartItem list \<Rightarrow> checkoutState \<Rightarrow> view" where
  "render cartItems s =
     (if length cartItems = 0 then EmptyCartView ''products''
      else CheckoutFormView
        \<lparr>totalShown = total' cartItems,
         itemCount = length cartItems,
         shippingShown =
           (if jsStrictEquals (shippingCost cartItems) (ofInt 0) then None
            else Some (shippingCost cartItems)),
         emailValue = checkoutState.email s,
         shippingValues = checkoutState.shipping s,
         submitDisabled = isProcessing s\<rparr>)"

section \<open>Quick view: the variant selection\<close>

text \<open>
  \<^verbatim>\<open>QuickViewModal.tsx\<close>. The state \<^verbatim>\<open>selectedVariant\<close> is \<^verbatim>\<open>Record<string, string> | null\<close>:
  \<^term>\<open>None\<close> is \<^verbatim>\<open>null\<close>, and an object is the association list of its own properties.
  (JavaScript enumerates keys that look like array indices before the others; the claims
  below are about the values under the keys, not about their order.)
\<close>

type_synonym selection = "(string \<times> string) list"

text \<open>
  The assignment \<^verbatim>\<open>obj[key] = v\<close> of a string \<open>v\<close> to a property of a plain object. It
  overwrites the own property in place when the object has one under the key, and
  appends a new own property otherwise, which is \<^const>\<open>AList.update\<close>; but for the key
  \<^verbatim>\<open>__proto__\<close>, when the object has no own property of that name, the assignment reaches
  the accessor of \<^verbatim>\<open>Object.prototype\<close>, which ignores a string, and the object stays as
  it is.
\<close>

definition assignProperty :: "string \<Rightarrow> string \<Rightarrow> selection \<Rightarrow> selection" where
  "assignProperty key v obj =
     (if key = ''__proto__'' \<and> map_of obj key = None then obj else AList.update key v obj)"

text \<open>
  The effect on \<^verbatim>\<open>[product]\<close> (lines 24--36). It runs for each key of
  \<^verbatim>\<open>Object.keys(product.variants)\<close>, looks the option sequence up under that key and, only
  when the sequence is not empty, assigns the value of its first option to
  \<^verbatim>\<open>defaults[key]\<close>. The state before the effect is not read. (A key of \<^verbatim>\<open>Object.keys\<close>
  always has a property, so the \<^term>\<open>None\<close> branch of the lookup is never taken.)
\<close>

definition Object_keys :: "(string \<times> 'a) list \<Rightarrow> string list" where
  "Object_keys obj = map fst obj"

definition defaultsStep :: "variants \<Rightarrow> selection \<Rightarrow> string \<Rightarrow> selection" where
  "defaultsStep vs defaults key =
     (case map_of vs key of
        Some opts \<Rightarrow>
          if length opts > 0 then assignProperty key (value' (opts ! 0)) defaults else defaults
      | None \<Rightarrow> defaults)"

definition initializeVariants :: "product \<Rightarrow> selection option \<Rightarrow> selection option" where
  "initializeVariants p prev =
     (case variants p of
        Some vs \<Rightarrow> Some (foldl (defaultsStep vs) [] (Object_keys vs))
      | None \<Rightarrow> None)"

text \<open>
  \<^verbatim>\<open>handleVariantChange\<close> (lines 38--40): \<^verbatim>\<open>prev => ({ ...prev, [type]: value })\<close>. Spreading
  \<^verbatim>\<open>null\<close> contributes no property, and a computed key of an object literal defines an
  own property under every name.
\<close>

definition handleVariantChange :: "string \<Rightarrow> string \<Rightarrow> selection option \<Rightarrow> selection option" where
  "handleVariantChange type val prev =
     Some (AList.update type val (case prev of None \<Rightarrow> [] | Some sel \<Rightarrow> sel))"

text \<open>The value the selection holds under a key as an own property, if it has one.\<close>

definition selected :: "selection option \<Rightarrow> string \<Rightarrow> string option" where
  "selected sel type = (case sel of None \<Rightarrow> None | Some al \<Rightarrow> map_of al type)"

text \<open>
  The option buttons the component renders (lines 82--111): none for a product without
  variants, else one per variant type and option of that type, whose click calls
  \<^verbatim>\<open>handleVariantChange(type, opt.value)\<close>.
\<close>

definition optionButtons :: "product \<Rightarrow> (string \<times> string) list" where
  "optionButtons p =
     (case variants p of
        None \<Rightarrow> []
      | Some vs \<Rightarrow>
          concat (map (\<lambda>type. map (\<lambda>opt. (type, value' opt))
                                (case map_of vs type of Some opts \<Rightarrow> opts | None \<Rightarrow> []))
                      (Object_keys vs)))"

text \<open>
  The label of a variant type shows \<^verbatim>\<open>selectedVariant?.[type]\<close> (line 86). For a selection
  that is an object without an own property under the type, the read goes to
  \<^verbatim>\<open>Object.prototype\<close>: it yields \<^verbatim>\<open>undefined\<close> or a function, which render as nothing,
  except under \<^verbatim>\<open>__proto__\<close>, where it yields the prototype object itself, and an object
  as a child makes the render throw.
\<close>

datatype renderError = ObjectAsChild

definition labelThrows :: "selection option \<Rightarrow> string \<Rightarrow> bool" where
  "labelThrows sel type =
     (case sel of
        None \<Rightarrow> False
      | Some al \<Rightarrow> type = ''__proto__'' \<and> map_of al type = None)"

definition renderThrows :: "product \<Rightarrow> selection option \<Rightarrow> bool" where
  "renderThrows p sel =
     (case variants p of
        None \<Rightarrow> False
      | Some vs \<Rightarrow> list_ex (labelThrows sel) (Object_keys vs))"

text \<open>
  A session of the overlay on one product: the effect initializes the selection, then the
  user clicks option buttons; the component renders with each selection, and a render
  that throws ends the session. A click on something that is not a rendered button does
  not exist, so it changes nothing. The add-to-cart button (line 116) emits the selection
  of that moment.
\<close>

fun clickOptions ::
  "product \<Rightarrow> (string \<times> string) list \<Rightarrow> selection option \<Rightarrow> renderError + selection option" where
  "clickOptions p [] sel = (if renderThrows p sel then Inl ObjectAsChild else Inr sel)"
| "clickOptions p (click # clicks) sel =
     (if renderThrows p sel then Inl ObjectAsChild
      else clickOptions p clicks
        (if click \<in> set (optionButtons p) then handleVariantChange (fst click) (snd click) sel
         else sel))"

definition addToCartSelection ::
  "product \<Rightarrow> selection option \<Rightarrow> (string \<times> string) list \<Rightarrow> renderError + selection option" where
  "addToCartSelection p prev clicks = clickOptions p clicks (initializeVariants p prev)"

section \<open>Auxiliary notions and concrete inputs\<close>

text \<open>
  The condition under which \<^const>\<open>handleFinalizeOrder\<close> goes past its first \<^verbatim>\<open>if\<close>
  (line 61): the negation of that test.
\<close>

definition canSubmit :: "checkoutState \<Rightarrow> bool" where
  "canSubmit s =
     (checkoutState.email s \<noteq> [] \<and> firstName (checkoutState.shipping s) \<noteq> []
      \<and> address (checkoutState.shipping s) \<noteq> [] \<and> shippingForm.phone (checkoutState.shipping s) \<noteq> [])"




text \<open>
  Products, cart lines, form states and RPC responses used as concrete inputs. The price
  of an \<open>exampleItem\<close> is a whole number of currency units.
\<close>

definition pricedItem :: "string \<Rightarrow> jsNumber \<Rightarrow> bool \<Rightarrow> int \<Rightarrow> cartItem" where
  "pricedItem pid pr saver qty =
     \<lparr>cartItemId = ''c-'' @ pid,
      product = \<lparr>product.id' = pid, price = pr, isShippingSaver = saver, variants = None\<rparr>,
      cartItem.quantity = qty\<rparr>"

definition exampleItem :: "string \<Rightarrow> int \<Rightarrow> bool \<Rightarrow> int \<Rightarrow> cartItem" where
  "exampleItem pid units saver qty = pricedItem pid (ofInt units) saver qty"

definition filledState :: checkoutState where
  "filledState =
     \<lparr>isProcessing = True, checkoutState.email = ''ana@example.com'',
      checkoutState.shipping =
        \<lparr>firstName = ''Ana'', lastName = ''Ruiz'', address = ''Calle Mayor 1'',
         shippingForm.city = ''Madrid'', zip' = ''28001'', shippingForm.phone = ''600100200''\<rparr>\<rparr>"

definition minimalState :: checkoutState where
  "minimalState =
     \<lparr>isProcessing = False, checkoutState.email = ''ana@example.com'',
      checkoutState.shipping =
        \<lparr>firstName = ''Ana'', lastName = [], address = ''Calle Mayor 1'',
         shippingForm.city = [], zip' = [], shippingForm.phone = ''600100200''\<rparr>\<rparr>"

definition noPhoneState :: checkoutState where
  "noPhoneState =
     \<lparr>isProcessing = False, checkoutState.email = ''ana@example.com'',
      checkoutState.shipping =
        \<lparr>firstName = ''Ana'', lastName = ''Ruiz'', address = ''Calle Mayor 1'',
         shippingForm.city = ''Madrid'', zip' = ''28001'', shippingForm.phone = []\<rparr>\<rparr>"

definition emptyResponse :: orderResponse where
  "emptyResponse = \<lparr>orderResponse.id' = JSUndefined, order_key = JSUndefined\<rparr>"

definition response123 :: orderResponse where
  "response123 = \<lparr>orderResponse.id' = JSNumber 123, order_key = JSString ''abc''\<rparr>"

definition responseLarge :: orderResponse where
  "responseLarge =
     \<lparr>orderResponse.id' = JSNumber 1000000000000000000000, order_key = JSString ''k''\<rparr>"

definition variantOpt :: "string \<Rightarrow> variantOption" where
  "variantOpt v = \<lparr>value' = v, colorCode = None\<rparr>"

definition productWith :: "variants option \<Rightarrow> product" where
  "productWith vs =
     \<lparr>product.id' = ''wc-31'', price = ofInt 12, isShippingSaver = False, variants = vs\<rparr>"

definition variantsAB :: variants where
  "variantsAB = [(''A'', [variantOpt ''a1'', variantOpt ''a2'']), (''B'', [variantOpt ''b1''])]"

definition variantsProto :: variants where
  "variantsProto =
     [(''__proto__'', [variantOpt ''a1'', variantOpt ''a2'']), (''B'', [variantOpt ''b1''])]"

section \<open>Properties of the numbers\<close>
















section \<open>Properties of the pricing derivation\<close>






lemma jsGe_examples:
  "jsGe (ofInt 40) (ofInt 35)"
  "\<not> jsGe (ofInt 10) (ofInt 35)"
  "\<not> jsGe (Finite 4925812092436479 (- 47)) (ofInt 35)"
  "\<not> jsGe (ofInt 0) (ofInt 35)"
  by code_simp+

lemma jsAdd_examples:
  "jsAdd (ofInt 40) (ofInt 0) = ofInt 40"
  "jsAdd (ofInt 10) (ofInt 6) = ofInt 16"
  "jsAdd (Finite 4925812092436479 (- 47)) (ofInt 6) = Finite 5770237022568447 (- 47)"
  "jsAdd (ofInt 0) (ofInt 6) = ofInt 6"
  by code_simp+




text \<open>
  Claim C10. Applied to the empty cart, the pricing derivation yields subtotal 0, shipping
  cost \<^const>\<open>SHIPPING_COST\<close>, which is 6, and total 6: the empty cart has no shipping-saver
  line and does not reach the threshold. The total is not shown, because the empty cart
  never renders the checkout form. (The numbers 0 and 6 of the program are given with
  their significand and exponent.)
\<close>

theorem pricing_empty_cart:
  "subtotal [] = ofInt 0 \<and> shippingCost [] = SHIPPING_COST \<and> SHIPPING_COST = ofInt 6
   \<and> total' [] = ofInt 6
   \<and> \<not> list_ex (\<lambda>item. isShippingSaver (product item)) []
   \<and> \<not> jsGe (subtotal []) FREE_SHIPPING_THRESHOLD
   \<and> (\<forall>s fv. render [] s \<noteq> CheckoutFormView fv)
   \<and> ofInt 0 = Finite 0 0 \<and> ofInt 6 = Finite 6755399441055744 (- 50)"
proof -
  have derivation: "subtotal [] = ofInt 0 \<and> shippingCost [] = SHIPPING_COST
      \<and> SHIPPING_COST = ofInt 6 \<and> total' [] = ofInt 6
      \<and> \<not> list_ex (\<lambda>item. isShippingSaver (product item)) []
      \<and> \<not> jsGe (subtotal []) FREE_SHIPPING_THRESHOLD
      \<and> (\<forall>s fv. render [] s \<noteq> CheckoutFormView fv)"
    by (simp add: subtotal_def shippingCost_def total'_def SHIPPING_COST_def
        FREE_SHIPPING_THRESHOLD_def render_def jsGe_examples jsAdd_examples)
  have numbers: "ofInt 0 = Finite 0 0 \<and> ofInt 6 = Finite 6755399441055744 (- 50)"
    by code_simp
  from derivation numbers show ?thesis by blast
qed

text \<open>The empty cart, with the form filled in and a submission in flight.\<close>

theorem pricing_empty_cart_witness:
  "total' [] = ofInt 6 \<and> render [] filledState = EmptyCartView ''products''"
  using pricing_empty_cart by (simp add: render_def)

section \<open>Properties of the rendering\<close>

text \<open>
  Claim C9. When the cart has no items, the component renders the empty-cart view, whose
  only action navigates to the product listing, and not the checkout form, whatever the
  form fields and the processing flag are.
\<close>

theorem empty_cart_short_circuit:
  assumes "length cartItems = 0"
  shows "render cartItems s = EmptyCartView ''products''
         \<and> (\<forall>fv. render cartItems s \<noteq> CheckoutFormView fv)"
  using assms by (simp add: render_def)

theorem empty_cart_short_circuit_witness:
  "length ([] :: cartItem list) = 0 \<and> render [] filledState = EmptyCartView ''products''
   \<and> render [] initialState = EmptyCartView ''products''"
  using empty_cart_short_circuit [of "[]" filledState] empty_cart_short_circuit [of "[]" initialState]
  by simp

section \<open>Properties of the submission handler\<close>

text \<open>
  Claim C2. The handler calls the order-creation RPC if and only if email, first name,
  address and phone are all non-empty. When one of the four is empty, the handler only
  shows the message and returns the state it was given. With the four present, the call
  is made whatever the last name, the city and the postal code are, empty included.
\<close>

theorem validation_gate:
  "(list_ex isCreateOrder (snd (handleFinalizeOrder createOrder cartItems s))
      \<longleftrightarrow> checkoutState.email s \<noteq> [] \<and> firstName (checkoutState.shipping s) \<noteq> []
          \<and> address (checkoutState.shipping s) \<noteq> [] \<and> shippingForm.phone (checkoutState.shipping s) \<noteq> [])
   \<and> (checkoutState.email s = [] \<or> firstName (checkoutState.shipping s) = []
         \<or> address (checkoutState.shipping s) = [] \<or> shippingForm.phone (checkoutState.shipping s) = []
       \<longrightarrow> handleFinalizeOrder createOrder cartItems s = (s, [PreventDefault, Alert msgIncomplete]))
   \<and> (checkoutState.email s \<noteq> [] \<and> firstName (checkoutState.shipping s) \<noteq> []
         \<and> address (checkoutState.shipping s) \<noteq> [] \<and> shippingForm.phone (checkoutState.shipping s) \<noteq> []
       \<longrightarrow> list_ex isCreateOrder (snd (handleFinalizeOrder createOrder cartItems
             (s\<lparr>checkoutState.shipping :=
                  (checkoutState.shipping s)\<lparr>lastName := l, shippingForm.city := c, zip' := z\<rparr>\<rparr>))))"
  by (auto simp: handleFinalizeOrder_def Let_def split: promise.splits option.splits)

text \<open>
  A form with last name, city and postal code empty is submitted; a form without a phone
  is blocked.
\<close>

theorem validation_gate_witness:
  "list_ex isCreateOrder
     (snd (handleFinalizeOrder (\<lambda>request. Rejected) [exampleItem ''wc-7'' 20 False 2] minimalState))
   \<and> \<not> list_ex isCreateOrder
     (snd (handleFinalizeOrder (\<lambda>request. Rejected) [exampleItem ''wc-7'' 20 False 2] noPhoneState))
   \<and> handleFinalizeOrder (\<lambda>request. Rejected) [exampleItem ''wc-7'' 20 False 2] noPhoneState
       = (noPhoneState, [PreventDefault, Alert msgIncomplete])"
  using validation_gate [of "\<lambda>request. Rejected" "[exampleItem ''wc-7'' 20 False 2]" minimalState]
    validation_gate [of "\<lambda>request. Rejected" "[exampleItem ''wc-7'' 20 False 2]" noPhoneState]
  by (simp add: minimalState_def noPhoneState_def)

text \<open>
  Claim C4. On every submission that does not succeed (the call is rejected, or it
  resolves with no response or with a response whose \<^verbatim>\<open>id\<close> is missing or falsy), the
  handler ends with \<^verbatim>\<open>isProcessing\<close> false, navigates nowhere, shows a message, and leaves
  the email and every shipping field as they were.
\<close>

theorem failure_returns_to_editing:
  assumes valid: "canSubmit s"
    and failed: "createOrder (orderData cartItems s) = Rejected
       \<or> createOrder (orderData cartItems s) = Resolved None
       \<or> (\<exists>r. createOrder (orderData cartItems s) = Resolved (Some r)
              \<and> \<not> truthy (orderResponse.id' r))"
  shows "fst (handleFinalizeOrder createOrder cartItems s) = s\<lparr>isProcessing := False\<rparr>
     \<and> \<not> isProcessing (fst (handleFinalizeOrder createOrder cartItems s))
     \<and> checkoutState.email (fst (handleFinalizeOrder createOrder cartItems s)) = checkoutState.email s
     \<and> checkoutState.shipping (fst (handleFinalizeOrder createOrder cartItems s))
         = checkoutState.shipping s
     \<and> \<not> list_ex isNavigate (snd (handleFinalizeOrder createOrder cartItems s))
     \<and> list_ex isAlert (snd (handleFinalizeOrder createOrder cartItems s))"
proof -
  from valid have gate:
    "\<not> (checkoutState.email s = [] \<or> firstName (checkoutState.shipping s) = []
      \<or> address (checkoutState.shipping s) = [] \<or> shippingForm.phone (checkoutState.shipping s) = [])"
    by (simp add: canSubmit_def)
  from failed consider
      (rejected) "createOrder (orderData cartItems s) = Rejected"
    | (null) "createOrder (orderData cartItems s) = Resolved None"
    | (noId) r where "createOrder (orderData cartItems s) = Resolved (Some r)"
        "\<not> truthy (orderResponse.id' r)"
    by blast
  then show ?thesis
  proof cases
    case rejected
    with gate show ?thesis by (simp add: handleFinalizeOrder_def Let_def)
  next
    case null
    with gate show ?thesis by (simp add: handleFinalizeOrder_def Let_def)
  next
    case noId
    with gate show ?thesis by (simp add: handleFinalizeOrder_def Let_def)
  qed
qed

text \<open>The response \<^verbatim>\<open>{}\<close> and a rejected call, on a filled form.\<close>

theorem failure_returns_to_editing_witness:
  "canSubmit filledState
   \<and> fst (handleFinalizeOrder (\<lambda>request. Resolved (Some emptyResponse))
        [exampleItem ''wc-7'' 20 False 2] filledState) = filledState\<lparr>isProcessing := False\<rparr>
   \<and> \<not> list_ex isNavigate (snd (handleFinalizeOrder (\<lambda>request. Resolved (Some emptyResponse))
        [exampleItem ''wc-7'' 20 False 2] filledState))
   \<and> fst (handleFinalizeOrder (\<lambda>request. Rejected)
        [exampleItem ''wc-7'' 20 False 2] filledState) = filledState\<lparr>isProcessing := False\<rparr>
   \<and> \<not> list_ex isNavigate (snd (handleFinalizeOrder (\<lambda>request. Rejected)
        [exampleItem ''wc-7'' 20 False 2] filledState))"
proof -
  have valid: "canSubmit filledState"
    by (simp add: canSubmit_def filledState_def)
  have noId: "\<not> truthy (orderResponse.id' emptyResponse)"
    by (simp add: emptyResponse_def)
  show ?thesis
    using valid noId
      failure_returns_to_editing [of filledState "\<lambda>request. Resolved (Some emptyResponse)"
        "[exampleItem ''wc-7'' 20 False 2]"]
      failure_returns_to_editing [of filledState "\<lambda>request. Rejected"
        "[exampleItem ''wc-7'' 20 False 2]"]
    by simp
qed

lemma templateString_examples:
  "templateString (orderResponse.id' response123) = ''123''"
  "templateString (order_key response123) = ''abc''"
  "templateString (orderResponse.id' responseLarge) = ''1e+21''"
  "templateString (order_key responseLarge) = ''k''"
  by code_simp+

text \<open>
  Claim C3. For every RPC response carrying an order id, that is a truthy \<^verbatim>\<open>id\<close>, and an
  order key, the successful submission path navigates, once and last, to exactly
  \<^verbatim>\<open>https://vellaperfumeria.com/finalizar-compra/order-pay/{id}/?pay_for_order=true&key={order_key}\<close>
  with the response's \<^verbatim>\<open>id\<close> and \<^verbatim>\<open>order_key\<close> substituted as the template literal prints
  them, and leaves \<^verbatim>\<open>isProcessing\<close> true.
\<close>

theorem success_navigates_to_payment_url:
  assumes valid: "canSubmit s"
    and resolved: "createOrder (orderData cartItems s) = Resolved (Some r)"
    and hasId: "truthy (orderResponse.id' r)"
  shows "filter isNavigate (snd (handleFinalizeOrder createOrder cartItems s))
       = [Navigate (''https://vellaperfumeria.com/finalizar-compra/order-pay/''
            @ templateString (orderResponse.id' r) @ ''/?pay_for_order=true&key=''
            @ templateString (order_key r))]
     \<and> last (snd (handleFinalizeOrder createOrder cartItems s)) = Navigate (paymentUrl r)
     \<and> fst (handleFinalizeOrder createOrder cartItems s) = s\<lparr>isProcessing := True\<rparr>"
  using assms by (simp add: handleFinalizeOrder_def canSubmit_def Let_def paymentUrl_def)

text \<open>
  The response \<^verbatim>\<open>{id: 123, order_key: "abc"}\<close> of the specification, and a response whose
  id is so large that the template literal prints it in exponent form.
\<close>

theorem success_navigates_to_payment_url_witness:
  "canSubmit minimalState \<and> truthy (orderResponse.id' response123)
   \<and> filter isNavigate (snd (handleFinalizeOrder (\<lambda>request. Resolved (Some response123))
        [exampleItem ''wc-7'' 20 False 2] minimalState))
     = [Navigate ''https://vellaperfumeria.com/finalizar-compra/order-pay/123/?pay_for_order=true&key=abc'']
   \<and> truthy (orderResponse.id' responseLarge)
   \<and> filter isNavigate (snd (handleFinalizeOrder (\<lambda>request. Resolved (Some responseLarge))
        [exampleItem ''wc-7'' 20 False 2] minimalState))
     = [Navigate ''https://vellaperfumeria.com/finalizar-compra/order-pay/1e+21/?pay_for_order=true&key=k'']"
proof -
  have valid: "canSubmit minimalState"
    by (simp add: canSubmit_def minimalState_def)
  have hasId: "truthy (orderResponse.id' response123)" "truthy (orderResponse.id' responseLarge)"
    by (simp_all add: response123_def responseLarge_def)
  show ?thesis
    using valid hasId templateString_examples
      success_navigates_to_payment_url [of minimalState "\<lambda>request. Resolved (Some response123)"
        "[exampleItem ''wc-7'' 20 False 2]" response123]
      success_navigates_to_payment_url [of minimalState "\<lambda>request. Resolved (Some responseLarge)"
        "[exampleItem ''wc-7'' 20 False 2]" responseLarge]
    by simp
qed

section \<open>Properties of the order request\<close>






























section \<open>Properties of the variant selection\<close>

lemma map_of_assignProperty:
  "map_of obj ''__proto__'' = None \<Longrightarrow>
   map_of (assignProperty key v obj) k =
     (if k = key \<and> key \<noteq> ''__proto__'' then Some v else map_of obj k)"
  by (auto simp: assignProperty_def update_conv')

lemma map_of_defaultsStep:
  "map_of acc ''__proto__'' = None \<Longrightarrow>
   map_of (defaultsStep vs acc x) k =
     (if k = x \<and> x \<noteq> ''__proto__''
      then (case map_of vs k of Some (opt # opts) \<Rightarrow> Some (value' opt) | _ \<Rightarrow> map_of acc k)
      else map_of acc k)"
  by (simp add: defaultsStep_def map_of_assignProperty split: option.splits list.splits)

lemma map_of_foldl_defaultsStep:
  "map_of acc ''__proto__'' = None \<Longrightarrow>
   map_of (foldl (defaultsStep vs) acc ks) k =
     (if k \<in> set ks \<and> k \<noteq> ''__proto__''
      then (case map_of vs k of Some (opt # opts) \<Rightarrow> Some (value' opt) | _ \<Rightarrow> map_of acc k)
      else map_of acc k)"
proof (induction ks arbitrary: acc)
  case Nil
  then show ?case by simp
next
  case (Cons x xs)
  have "map_of (defaultsStep vs acc x) ''__proto__'' = None"
    using Cons.prems by (auto simp: map_of_defaultsStep)
  from Cons.IH [OF this] Cons.prems show ?case
    by (simp add: map_of_defaultsStep split: option.splits list.splits)
qed

lemma distinct_defaultsStep:
  "distinct (map fst acc) \<Longrightarrow> distinct (map fst (defaultsStep vs acc x))"
  by (simp add: defaultsStep_def assignProperty_def distinct_update split: option.splits)

lemma distinct_foldl_defaultsStep:
  "distinct (map fst acc) \<Longrightarrow> distinct (map fst (foldl (defaultsStep vs) acc ks))"
  by (induction ks arbitrary: acc) (simp_all add: distinct_defaultsStep)

lemma map_of_defaults:
  "map_of (foldl (defaultsStep vs) [] (Object_keys vs)) k =
     (if k = ''__proto__'' then None
      else (case map_of vs k of Some (opt # opts) \<Rightarrow> Some (value' opt) | _ \<Rightarrow> None))"
proof (cases "map_of vs k")
  case None
  then show ?thesis by (simp add: map_of_foldl_defaultsStep)
next
  case (Some opts)
  then have "k \<in> set (Object_keys vs)"
    by (metis Object_keys_def map_of_eq_None_iff option.distinct(1) set_map)
  with Some show ?thesis by (simp add: map_of_foldl_defaultsStep split: list.splits)
qed

lemma initializeVariants_AB:
  "initializeVariants (productWith (Some variantsAB)) prev = Some [(''A'', ''a1''), (''B'', ''b1'')]"
  by (simp add: initializeVariants_def productWith_def variantsAB_def Object_keys_def
      defaultsStep_def variantOpt_def assignProperty_def)

lemma initializeVariants_Proto:
  "initializeVariants (productWith (Some variantsProto)) prev = Some [(''B'', ''b1'')]"
  by (simp add: initializeVariants_def productWith_def variantsProto_def Object_keys_def
      defaultsStep_def variantOpt_def assignProperty_def)

text \<open>
  Claim C6, amended. After the initialization, whatever the selection was before, the
  selection of a product with variants maps every variant type other than \<^verbatim>\<open>__proto__\<close>
  whose option sequence is not empty to exactly one value, the value of the first option
  of that sequence, and holds no other key (a variant type with an empty option sequence
  gets no entry, the assignment to \<^verbatim>\<open>__proto__\<close> stores nothing, and no key of an earlier
  product remains). For a product without variants the selection is \<^verbatim>\<open>null\<close>.
\<close>

theorem default_selection:
  "(variants p = None \<longrightarrow> initializeVariants p prev = None)
   \<and> (\<forall>vs. variants p = Some vs \<longrightarrow>
        (\<exists>sel. initializeVariants p prev = Some sel
           \<and> distinct (map fst sel)
           \<and> (\<forall>k. map_of sel k =
                (if k = ''__proto__'' then None
                 else (case map_of vs k of Some (opt # opts) \<Rightarrow> Some (value' opt)
                       | _ \<Rightarrow> None)))))
   \<and> initializeVariants p prev = initializeVariants p None"
  by (simp add: initializeVariants_def map_of_defaults distinct_foldl_defaultsStep)

text \<open>
  The product of the specification, variants \<^verbatim>\<open>{A: [a1, a2], B: [b1]}\<close>, presented after a
  product that had a variant type \<^verbatim>\<open>X\<close>; and the variants \<^verbatim>\<open>{"__proto__": [a1, a2], B: [b1]}\<close>.
\<close>

theorem default_selection_witness:
  "variants (productWith (Some variantsAB)) = Some variantsAB
   \<and> initializeVariants (productWith (Some variantsAB)) (Some [(''X'', ''x1'')])
       = Some [(''A'', ''a1''), (''B'', ''b1'')]
   \<and> map_of [(''A'', ''a1''), (''B'', ''b1'')] ''X'' = None
   \<and> variants (productWith None) = None
   \<and> initializeVariants (productWith None) (Some [(''X'', ''x1'')]) = None
   \<and> initializeVariants (productWith (Some variantsProto)) None = Some [(''B'', ''b1'')]"
  using default_selection [of "productWith (Some variantsAB)" "Some [(''X'', ''x1'')]"]
    default_selection [of "productWith None" "Some [(''X'', ''x1'')]"]
    default_selection [of "productWith (Some variantsProto)" None]
    initializeVariants_AB initializeVariants_Proto
  by (simp add: productWith_def)

text \<open>
  The claim as stated fails for a variant type without options: for the variants
  \<^verbatim>\<open>{A: []}\<close> the key \<^verbatim>\<open>A\<close> is present in the variant map, the test
  \<^verbatim>\<open>product.variants[key].length > 0\<close> fails, and the selection is \<^verbatim>\<open>{}\<close>, with no value for
  \<^verbatim>\<open>A\<close>.
\<close>

theorem empty_option_sequence_counterexample:
  "variants (productWith (Some [(''A'', [])])) = Some [(''A'', [])]
   \<and> ''A'' \<in> set (Object_keys [(''A'', [] :: variantOption list)])
   \<and> initializeVariants (productWith (Some [(''A'', [])])) None = Some []
   \<and> selected (initializeVariants (productWith (Some [(''A'', [])])) None) ''A'' = None"
  by (simp add: initializeVariants_def productWith_def Object_keys_def defaultsStep_def
      selected_def)

text \<open>
  Claim C7. For every selection, type and value, \<^verbatim>\<open>handleVariantChange\<close> sets the given type
  to the given value and leaves the value of every other key as it was; selecting a
  second type after a first keeps the first; and selecting again the value a key already
  has returns the selection it was given.
\<close>

theorem variant_change_merges:
  "selected (handleVariantChange type val prev) type = Some val
   \<and> (\<forall>k. k \<noteq> type \<longrightarrow> selected (handleVariantChange type val prev) k = selected prev k)
   \<and> (selected prev type = Some val \<longrightarrow> handleVariantChange type val prev = prev)
   \<and> handleVariantChange type val (handleVariantChange type val prev)
       = handleVariantChange type val prev
   \<and> (type \<noteq> type2 \<longrightarrow>
        selected (handleVariantChange type2 val2 (handleVariantChange type val prev)) type = Some val
        \<and> selected (handleVariantChange type2 val2 (handleVariantChange type val prev)) type2
            = Some val2)"
  by (cases prev) (auto simp: handleVariantChange_def selected_def update_conv' update_triv)

text \<open>
  Selecting \<^verbatim>\<open>B: b1\<close> after \<^verbatim>\<open>A: a2\<close> on the default selection \<^verbatim>\<open>{A: a1, B: b1}\<close>, and selecting
  \<^verbatim>\<open>B: b1\<close> once more.
\<close>

theorem variant_change_merges_witness:
  "handleVariantChange ''B'' ''b1'' (handleVariantChange ''A'' ''a2''
       (initializeVariants (productWith (Some variantsAB)) None))
     = Some [(''A'', ''a2''), (''B'', ''b1'')]
   \<and> selected (Some [(''A'', ''a2''), (''B'', ''b1'')]) ''B'' = Some ''b1''
   \<and> handleVariantChange ''B'' ''b1'' (Some [(''A'', ''a2''), (''B'', ''b1'')])
     = Some [(''A'', ''a2''), (''B'', ''b1'')]
   \<and> ''A'' \<noteq> ''B''
   \<and> selected (handleVariantChange ''B'' ''b1'' (handleVariantChange ''A'' ''a2'' None)) ''A''
     = Some ''a2''"
  using variant_change_merges [of "''B''" "''b1''" "Some [(''A'', ''a2''), (''B'', ''b1'')]" "''A''" "''a2''"]
    variant_change_merges [of "''A''" "''a2''" None "''B''" "''b1''"]
    initializeVariants_AB [of None]
  by (simp add: handleVariantChange_def selected_def)


lemma clickOptions_no_variants:
  "variants p = None \<Longrightarrow> clickOptions p clicks sel = Inr sel"
  by (induction clicks arbitrary: sel) (simp_all add: optionButtons_def renderThrows_def)

lemma renderThrows_iff:
  "variants p = Some vs \<Longrightarrow>
   renderThrows p sel \<longleftrightarrow>
     (\<exists>al. sel = Some al \<and> ''__proto__'' \<in> set (Object_keys vs) \<and> map_of al ''__proto__'' = None)"
  by (auto simp: renderThrows_def labelThrows_def list_ex_iff split: option.splits)

lemma update_not_Nil: "AList.update k v al \<noteq> []"
  by (cases al) simp_all

lemma clickOptions_Some:
  assumes "variants p = Some vs" and "''__proto__'' \<notin> set (Object_keys vs)"
  shows "\<exists>sel'. clickOptions p clicks (Some sel) = Inr (Some sel')
           \<and> (sel \<noteq> [] \<longrightarrow> sel' \<noteq> []) \<and> (optionButtons p = [] \<longrightarrow> sel' = sel)"
proof (induction clicks arbitrary: sel)
  case Nil
  show ?case using assms by (simp add: renderThrows_iff)
next
  case (Cons click clicks)
  have calm: "\<not> renderThrows p (Some sel)"
    using assms by (simp add: renderThrows_iff)
  show ?case
  proof (cases "click \<in> set (optionButtons p)")
    case True
    from Cons.IH [of "AList.update (fst click) (snd click) sel"] True calm
    show ?thesis by (auto simp: handleVariantChange_def update_not_Nil)
  next
    case False
    with Cons.IH [of sel] calm show ?thesis by simp
  qed
qed

lemma clickOptions_throws:
  "renderThrows p sel \<Longrightarrow> clickOptions p clicks sel = Inl ObjectAsChild"
  by (cases clicks) simp_all

lemma optionButtons_Nil:
  assumes "variants p = Some vs" and "\<forall>k opts. map_of vs k = Some opts \<longrightarrow> opts = []"
  shows "optionButtons p = []"
  using assms by (auto simp: optionButtons_def split: option.splits)

text \<open>
  Claim C8, amended. For every product, after the initialization and any clicks on the
  rendered option buttons, the selection emitted by the add-to-cart action is \<^verbatim>\<open>null\<close> when
  the product has no variants. When the product has variants, none of them under the key
  \<^verbatim>\<open>__proto__\<close>, it is an object, which holds at least one key when some variant type has
  a non-empty option sequence and is the empty object when none has. When the variants
  have the key \<^verbatim>\<open>__proto__\<close>, the render that follows the initialization throws, and
  nothing is emitted.
\<close>

theorem add_to_cart_selection:
  "(variants p = None \<longrightarrow> addToCartSelection p prev clicks = Inr None)
   \<and> (\<forall>vs. variants p = Some vs \<and> ''__proto__'' \<notin> set (Object_keys vs) \<longrightarrow>
        (\<exists>sel. addToCartSelection p prev clicks = Inr (Some sel)
           \<and> ((\<exists>k opt opts. map_of vs k = Some (opt # opts)) \<longrightarrow> sel \<noteq> [])
           \<and> ((\<forall>k opts. map_of vs k = Some opts \<longrightarrow> opts = []) \<longrightarrow> sel = [])))
   \<and> (\<forall>vs. variants p = Some vs \<and> ''__proto__'' \<in> set (Object_keys vs) \<longrightarrow>
        addToCartSelection p prev clicks = Inl ObjectAsChild)"
proof (cases "variants p")
  case None
  then show ?thesis
    by (simp add: addToCartSelection_def clickOptions_no_variants initializeVariants_def)
next
  case (Some vs)
  define sel0 where "sel0 = foldl (defaultsStep vs) [] (Object_keys vs)"
  have init: "initializeVariants p prev = Some sel0"
    by (simp add: initializeVariants_def Some sel0_def)
  have lookup: "map_of sel0 k =
      (if k = ''__proto__'' then None
       else (case map_of vs k of Some (opt # opts) \<Rightarrow> Some (value' opt) | _ \<Rightarrow> None))" for k
    unfolding sel0_def by (rule map_of_defaults)
  show ?thesis
  proof (cases "''__proto__'' \<in> set (Object_keys vs)")
    case True
    have "map_of sel0 ''__proto__'' = None"
      by (simp add: lookup)
    with True Some have "renderThrows p (Some sel0)"
      by (simp add: renderThrows_iff)
    then have "addToCartSelection p prev clicks = Inl ObjectAsChild"
      by (simp add: addToCartSelection_def init clickOptions_throws)
    with True Some show ?thesis by simp
  next
    case False
    have nonempty: "sel0 \<noteq> []" if "map_of vs k = Some (opt # opts)" for k opt opts
    proof
      assume "sel0 = []"
      then have none: "map_of sel0 k = None" by simp
      from that have "k \<in> set (Object_keys vs)"
        by (metis Object_keys_def map_of_eq_None_iff option.distinct(1) set_map)
      with False have "k \<noteq> ''__proto__''" by auto
      with that have "map_of sel0 k = Some (value' opt)"
        by (simp add: lookup)
      with none show False by simp
    qed
    have empty: "sel0 = []" if "\<forall>k opts. map_of vs k = Some opts \<longrightarrow> opts = []"
    proof -
      have "map_of sel0 k = None" for k
        using that by (auto simp: lookup split: option.splits list.splits)
      then have "map_of sel0 = Map.empty" by (simp add: fun_eq_iff)
      then show ?thesis by simp
    qed
    obtain sel' where sel': "clickOptions p clicks (Some sel0) = Inr (Some sel')"
        "sel0 \<noteq> [] \<longrightarrow> sel' \<noteq> []" "optionButtons p = [] \<longrightarrow> sel' = sel0"
      using clickOptions_Some [OF Some False] by blast
    have "sel' = []" if "\<forall>k opts. map_of vs k = Some opts \<longrightarrow> opts = []"
      using that sel'(3) empty optionButtons_Nil [OF Some] by simp
    with sel' nonempty Some False init show ?thesis
      by (auto simp: addToCartSelection_def)
  qed
qed

lemma variants_productWith: "variants (productWith vs) = vs"
  by (simp add: productWith_def)

lemma addToCartSelection_examples:
  "addToCartSelection (productWith None) (Some [(''X'', ''x1'')]) [(''A'', ''a2'')] = Inr None"
  "addToCartSelection (productWith (Some variantsAB)) None [(''A'', ''a2'')]
     = Inr (Some [(''A'', ''a2''), (''B'', ''b1'')])"
  "addToCartSelection (productWith (Some [(''Talla'', [])])) None [(''Talla'', ''M'')] = Inr (Some [])"
  "addToCartSelection (productWith (Some variantsProto)) None [] = Inl ObjectAsChild"
  "addToCartSelection (productWith (Some [])) None [] = Inr (Some [])"
  "addToCartSelection (productWith (Some [(''Talla'', [])])) None [] = Inr (Some [])"
  by code_simp+

text \<open>
  A product without variants; the product with variants \<^verbatim>\<open>{A: [a1, a2], B: [b1]}\<close> after a
  click on \<^verbatim>\<open>a2\<close>; the variants \<^verbatim>\<open>{Talla: []}\<close>; and variants with the key \<^verbatim>\<open>__proto__\<close>.
\<close>

theorem add_to_cart_selection_witness:
  "addToCartSelection (productWith None) (Some [(''X'', ''x1'')]) [(''A'', ''a2'')] = Inr None
   \<and> map_of variantsAB ''B'' = Some [variantOpt ''b1'']
   \<and> ''__proto__'' \<notin> set (Object_keys variantsAB)
   \<and> addToCartSelection (productWith (Some variantsAB)) None [(''A'', ''a2'')]
       = Inr (Some [(''A'', ''a2''), (''B'', ''b1'')])
   \<and> addToCartSelection (productWith (Some [(''Talla'', [])])) None [(''Talla'', ''M'')]
       = Inr (Some [])
   \<and> ''__proto__'' \<in> set (Object_keys variantsProto)
   \<and> addToCartSelection (productWith (Some variantsProto)) None [] = Inl ObjectAsChild"
  using add_to_cart_selection [of "productWith None" "Some [(''X'', ''x1'')]" "[(''A'', ''a2'')]"]
    add_to_cart_selection [of "productWith (Some variantsAB)" None "[(''A'', ''a2'')]"]
    add_to_cart_selection [of "productWith (Some [(''Talla'', [])])" None "[(''Talla'', ''M'')]"]
    add_to_cart_selection [of "productWith (Some variantsProto)" None "[]"]
    addToCartSelection_examples
  by (simp add: variantsAB_def variantsProto_def Object_keys_def)

text \<open>
  The claim as stated fails when \<^verbatim>\<open>product.variants\<close> is present and no variant type has
  an option: for the variants \<^verbatim>\<open>{}\<close> and for \<^verbatim>\<open>{Talla: []}\<close> the emitted selection is the
  empty object \<^verbatim>\<open>{}\<close>, present and without a key.
\<close>

theorem empty_selection_counterexample:
  "variants (productWith (Some [])) = Some []
   \<and> addToCartSelection (productWith (Some [])) None [] = Inr (Some [])
   \<and> variants (productWith (Some [(''Talla'', [])])) = Some [(''Talla'', [])]
   \<and> addToCartSelection (productWith (Some [(''Talla'', [])])) None [] = Inr (Some [])"
  by (simp add: addToCartSelection_examples variants_productWith)

end
